theory Spec2Isabelle
  imports Complex_Main "HOL-Library.Monad_Syntax"
begin

section \<open>The Heston Monte Carlo pricer of \<open>src/simulation.py\<close>\<close>

text \<open>
  The two functions of \<open>simulation.py\<close>, \<open>heston_model_sim\<close> and \<open>calculate_greeks\<close>,
  are embedded over the real numbers. Three things the Python does beyond returning a
  number are made explicit.

  \<^item> Exceptions are values of \<open>pyerror\<close>; a call returns \<open>pyerror + result\<close>.
  \<^item> A double that is \<open>nan\<close> is \<open>None\<close> of type \<open>float\<close>, a finite double is \<open>Some x\<close>
    with \<open>x\<close> real. Every numpy operation used here returns \<open>nan\<close> when an operand is
    \<open>nan\<close> (\<open>np.maximum\<close> and \<open>np.mean\<close> included), so the operations are strict in
    \<open>None\<close>. Rounding and overflow of doubles are not modelled; the one constant that
    decides a branch, \<open>1/365.0\<close>, is the double itself.
  \<^item> The process-wide generator behind \<open>np.random.normal\<close> is a state \<open>rng\<close>: the
    sequence of standard-normal draws fixed by its seeding, and the number of draws
    consumed so far. A call takes the state and returns the new one.
\<close>

subsection \<open>Values, errors and the random generator\<close>

datatype pyerror = ZeroDivisionError | ValueError

type_synonym float = "real option"

record rng =
  draws :: "nat \<Rightarrow> real"
  pos :: nat

definition advance :: "rng \<Rightarrow> nat \<Rightarrow> rng" where
  "advance g k = g\<lparr>pos := pos g + k\<rparr>"

text \<open>\<open>np.random.normal(size=(n, m))\<close>: the next \<open>n * m\<close> draws, filled row by row.\<close>

definition random_normal :: "rng \<Rightarrow> nat \<Rightarrow> nat \<Rightarrow> real list list \<times> rng" where
  "random_normal g n m =
     (map (\<lambda>i. map (\<lambda>j. draws g (pos g + i * m + j)) [0..<m]) [0..<n], advance g (n * m))"

text \<open>\<open>np.sqrt\<close> of a negative double is \<open>nan\<close> (with a warning, not an exception).\<close>

definition np_sqrt :: "real \<Rightarrow> float" where
  "np_sqrt x = (if x < 0 then None else Some (sqrt x))"

text \<open>\<open>np.maximum(x, c)\<close> on one element.\<close>

definition np_maximum :: "float \<Rightarrow> real \<Rightarrow> float" where
  "np_maximum x c = map_option (\<lambda>a. max a c) x"

text \<open>
  \<open>np.mean\<close>: \<open>nan\<close> on an empty array (with a warning), \<open>nan\<close> if an element is. The mean
  here is the exact one. \<open>np.mean\<close> rounds the sum and the quotient, so in doubles the mean of
  several equal values need not be that value (three times \<open>0.1\<close> average to
  \<open>0.10000000000000002\<close>); the mean of a single value is that value in doubles too.
\<close>

definition np_mean :: "float list \<Rightarrow> float" where
  "np_mean xs =
     (if xs = [] then None
      else do { ys \<leftarrow> those xs; Some (sum_list ys / real (length ys)) })"


subsection \<open>\<open>heston_model_sim\<close>\<close>

text \<open>Line 30, one element: \<open>Z2 = rho * Z1 + np.sqrt(1 - rho**2) * normal\<close>.\<close>

definition correlate :: "real \<Rightarrow> real \<Rightarrow> real \<Rightarrow> float" where
  "correlate rho z1 zraw = do { c \<leftarrow> np_sqrt (1 - rho\<^sup>2); Some (rho * z1 + c * zraw) }"

text \<open>
  Lines 42 to 46, the body of the time loop on one path: from \<open>(S[i, t], v[i, t])\<close> and
  the draws \<open>(Z1[i, t], Z2[i, t])\<close> to \<open>(S[i, t+1], v[i, t+1])\<close>.
\<close>

definition euler_step ::
  "real \<Rightarrow> real \<Rightarrow> real \<Rightarrow> real \<Rightarrow> real \<Rightarrow> float \<times> float \<Rightarrow> real \<times> float \<Rightarrow> float \<times> float" where
  "euler_step r kappa theta sigma dt Sv z =
     (let vt = np_maximum (snd Sv) 0;
          sqrt_vt = vt \<bind> np_sqrt;
          sqrt_dt = np_sqrt dt
      in (do { s \<leftarrow> fst Sv; a \<leftarrow> vt; q \<leftarrow> sqrt_vt; d \<leftarrow> sqrt_dt;
               Some (s * exp ((r - 0.5 * a) * dt + q * d * fst z)) },
          do { x \<leftarrow> snd Sv; a \<leftarrow> vt; q \<leftarrow> sqrt_vt; d \<leftarrow> sqrt_dt; z2 \<leftarrow> snd z;
               Some (x + kappa * (theta - a) * dt + sigma * q * d * z2) }))"

text \<open>
  Lines 38 to 51, \<open>for t in range(num_steps)\<close> on one path: the row of the arrays \<open>S\<close>
  and \<open>v\<close>, entry \<open>t\<close> holding \<open>(S[i, t], v[i, t])\<close>; one entry more than there are steps.
\<close>

fun heston_loop ::
  "real \<Rightarrow> real \<Rightarrow> real \<Rightarrow> real \<Rightarrow> real \<Rightarrow> (real \<times> float) list \<Rightarrow> float \<times> float
     \<Rightarrow> (float \<times> float) list" where
  "heston_loop r kappa theta sigma dt [] Sv = [Sv]"
| "heston_loop r kappa theta sigma dt (z # zs) Sv =
     Sv # heston_loop r kappa theta sigma dt zs (euler_step r kappa theta sigma dt Sv z)"

text \<open>Lines 29 to 54: the draws, the arrays and the terminal column \<open>S[:, -1]\<close>.\<close>

definition terminal_prices ::
  "rng \<Rightarrow> real \<Rightarrow> real \<Rightarrow> real \<Rightarrow> real \<Rightarrow> real \<Rightarrow> real \<Rightarrow> real \<Rightarrow> real \<Rightarrow> nat \<Rightarrow> nat
     \<Rightarrow> float list" where
  "terminal_prices g S0 v0 rho kappa theta sigma dt r n m =
     (let (Z1, g1) = random_normal g n m;
          (Zraw, g2) = random_normal g1 n m;
          Z2 = map2 (map2 (correlate rho)) Z1 Zraw
      in map2 (\<lambda>z1 z2. fst (last (heston_loop r kappa theta sigma dt (zip z1 z2) (Some S0, Some v0))))
           Z1 Z2)"

text \<open>Lines 55 to 58, one element.\<close>

definition payoff :: "string \<Rightarrow> real \<Rightarrow> float \<Rightarrow> float" where
  "payoff option_type strike ST =
     (if option_type = ''call'' then np_maximum (map_option (\<lambda>s. s - strike) ST) 0
      else np_maximum (map_option (\<lambda>s. strike - s) ST) 0)"



text \<open>
  The whole function. \<open>T / num_steps\<close> on line 25 is a Python division and raises
  \<open>ZeroDivisionError\<close> for \<open>num_steps = 0\<close>; \<open>np.random.normal\<close> on line 29 raises
  \<open>ValueError\<close> for a negative dimension. Both happen before a draw is consumed.
\<close>

definition heston_model_sim ::
  "rng \<Rightarrow> real \<Rightarrow> real \<Rightarrow> real \<Rightarrow> real \<Rightarrow> real \<Rightarrow> real \<Rightarrow> real \<Rightarrow> real \<Rightarrow> real \<Rightarrow> string
     \<Rightarrow> int \<Rightarrow> int \<Rightarrow> pyerror + (float \<times> rng)" where
  "heston_model_sim g S0 v0 rho kappa theta sigma T r strike option_type num_paths num_steps =
     (if num_steps = 0 then Inl ZeroDivisionError
      else if num_paths < 0 \<or> num_steps < 0 then Inl ValueError
      else
        let dt = T / real_of_int num_steps;
            n = nat num_paths;
            m = nat num_steps;
            ST = terminal_prices g S0 v0 rho kappa theta sigma dt r n m;
            pay = map (payoff option_type strike) ST;
            option_price = do { mu \<leftarrow> np_mean pay; Some (exp (- r * T) * mu) }
        in Inr (option_price, advance g (2 * n * m)))"

subsection \<open>\<open>calculate_greeks\<close>\<close>





subsection \<open>Auxiliary definitions\<close>

text \<open>
  The draws that path \<open>i\<close> of a call reads, as pairs \<open>(Z1[i, t], Z2[i, t])\<close>: \<open>Z1\<close> is the
  first block of \<open>n * m\<close> draws of the call and the raw second normal is the block after it.
\<close>

definition path_draws :: "rng \<Rightarrow> real \<Rightarrow> nat \<Rightarrow> nat \<Rightarrow> nat \<Rightarrow> (real \<times> float) list" where
  "path_draws g rho n m i =
     map (\<lambda>j. (draws g (pos g + i * m + j),
                correlate rho (draws g (pos g + i * m + j)) (draws g (pos g + n * m + i * m + j))))
       [0..<m]"

text \<open>A generator state for the concrete evaluations below: draw number \<open>k\<close> is \<open>k\<close>.\<close>

definition example_rng :: rng where
  "example_rng = \<lparr>draws = (\<lambda>k. real k), pos = 0\<rparr>"

section \<open>Properties\<close>

subsection \<open>Auxiliary lemmas\<close>



lemma length_heston_loop: "length (heston_loop r kappa theta sigma dt zs Sv) = Suc (length zs)"
  by (induction zs arbitrary: Sv) auto

lemma euler_step_Some:
  "0 \<le> dt \<Longrightarrow>
   euler_step r kappa theta sigma dt (Some s, Some v) (z1, Some z2) =
     (Some (s * exp ((r - 0.5 * max v 0) * dt + sqrt (max v 0) * sqrt dt * z1)),
      Some (v + kappa * (theta - max v 0) * dt + sigma * sqrt (max v 0) * sqrt dt * z2))"
  by (simp add: euler_step_def np_maximum_def np_sqrt_def)

lemma terminal_prices_paths:
  "terminal_prices g S0 v0 rho kappa theta sigma dt r n m =
     map (\<lambda>i. fst (last (heston_loop r kappa theta sigma dt (path_draws g rho n m i) (Some S0, Some v0))))
       [0..<n]"
  by (simp add: terminal_prices_def random_normal_def advance_def path_draws_def
      zip_map_map  map_zip_map map_zip_map2 zip_same_conv_map add.assoc comp_def)

lemma length_terminal_prices [simp]:
  "length (terminal_prices g S0 v0 rho kappa theta sigma dt r n m) = n"
  by (simp add: terminal_prices_paths)

lemma heston_model_sim_Inr:
  "0 < num_steps \<Longrightarrow> 0 \<le> num_paths \<Longrightarrow>
   heston_model_sim g S0 v0 rho kappa theta sigma T r strike option_type num_paths num_steps =
     Inr (do { mu \<leftarrow> np_mean (map (payoff option_type strike)
                 (terminal_prices g S0 v0 rho kappa theta sigma (T / real_of_int num_steps) r
                    (nat num_paths) (nat num_steps)));
               Some (exp (- r * T) * mu) },
          advance g (2 * nat num_paths * nat num_steps))"
  by (simp add: heston_model_sim_def Let_def)








lemma payoff_Some:
  "payoff option_type strike (Some s) =
     Some (if option_type = ''call'' then max (s - strike) 0 else max (strike - s) 0)"
  by (simp add: payoff_def np_maximum_def)







lemma payoff_None: "payoff option_type strike None = None"
  by (simp add: payoff_def np_maximum_def)

lemma those_map_payoff:
  "those (map (payoff option_type strike) ST) =
     map_option (map (\<lambda>s. if option_type = ''call'' then max (s - strike) 0 else max (strike - s) 0))
       (those ST)"
proof (induction ST)
  case Nil
  then show ?case by simp
next
  case (Cons x ST)
  then show ?case
    by (cases x; cases "those ST") (simp_all add: payoff_None payoff_Some)
qed

lemma np_mean_map_payoff:
  "np_mean (map (payoff option_type strike) ST) =
     (case those ST of None \<Rightarrow> None
      | Some xs \<Rightarrow>
          if xs = [] then None
          else Some (sum_list (map (\<lambda>s. if option_type = ''call'' then max (s - strike) 0
                                         else max (strike - s) 0) xs) / real (length xs)))"
proof -
  have len: "those ST = Some xs \<Longrightarrow> (xs = []) = (ST = [])" for xs
    by (cases ST) (auto split: option.splits)
  show ?thesis
    unfolding np_mean_def those_map_payoff
    by (cases "those ST") (simp_all add: len)
qed

lemma example_terminal_prices:
  "terminal_prices example_rng 100 1 0 2 1 1 1 (1/2) 2 (Suc 0) = [Some 100, Some (100 * exp 1)]"
  by (simp add: terminal_prices_paths path_draws_def example_rng_def correlate_def np_sqrt_def
      euler_step_def np_maximum_def numeral_2_eq_2)

subsection \<open>Zero maturity\<close>




subsection \<open>The price is a discounted mean of payoffs\<close>

text \<open>
  Claim C7. Whenever \<open>heston_model_sim\<close> simulates (\<open>num_steps > 0\<close> and \<open>num_paths \<ge> 0\<close>), the
  price it returns is \<open>exp (- r * T)\<close> times the arithmetic mean, over all paths, of the payoff
  of the terminal price: \<open>max (S_T - strike) 0\<close> when the option type is \<open>call\<close> and
  \<open>max (strike - S_T) 0\<close> for any other option type. It is \<open>nan\<close> exactly when a terminal price
  is \<open>nan\<close> or there is no path. No other formula is involved.
\<close>

theorem price_is_discounted_mean:
  assumes "0 < num_steps" "0 \<le> num_paths"
  shows "heston_model_sim g S0 v0 rho kappa theta sigma T r strike option_type num_paths num_steps =
           Inr (case those (terminal_prices g S0 v0 rho kappa theta sigma (T / real_of_int num_steps) r
                              (nat num_paths) (nat num_steps)) of
                  None \<Rightarrow> None
                | Some xs \<Rightarrow>
                    if xs = [] then None
                    else Some (exp (- r * T) *
                      ((\<Sum>s\<leftarrow>xs. if option_type = ''call'' then max (s - strike) 0
                                else max (strike - s) 0) / real (length xs))),
                advance g (2 * nat num_paths * nat num_steps))"
proof -
  let ?ST = "terminal_prices g S0 v0 rho kappa theta sigma (T / real_of_int num_steps) r
               (nat num_paths) (nat num_steps)"
  let ?f = "\<lambda>s. if option_type = ''call'' then max (s - strike) 0 else max (strike - s) 0"
  have len: "those ?ST = Some xs \<Longrightarrow> (xs = []) = (?ST = [])" for xs
    by (cases ?ST) (auto split: option.splits)
  have "np_mean (map (payoff option_type strike) ?ST) =
          (case those ?ST of None \<Rightarrow> None
           | Some xs \<Rightarrow> if xs = [] then None else Some (sum_list (map ?f xs) / real (length xs)))"
    unfolding np_mean_def those_map_payoff
    by (cases "those ?ST") (simp_all add: len)
  then show ?thesis
    using assms by (simp add: heston_model_sim_Inr split: option.splits)
qed

text \<open>The theorem on two paths of one step, with terminal prices \<open>100\<close> and \<open>100 * exp 1\<close>.\<close>

theorem price_is_discounted_mean_witness:
  "heston_model_sim example_rng 100 1 0 2 1 1 1 (1/2) 100 ''call'' 2 1 =
     Inr (Some (exp (- (1/2)) * ((100 * exp 1 - 100) / 2)), advance example_rng 4)"
  using price_is_discounted_mean [of 1 2 example_rng 100 1 0 2 1 1 1 "1/2" 100 "''call''"]
  by (simp add: example_terminal_prices)

subsection \<open>The price is not negative\<close>



subsection \<open>Auxiliary lemmas on \<open>calculate_greeks\<close>, the loop and the draws\<close>







lemma heston_loop_Suc:
  "t < length zs \<Longrightarrow>
   heston_loop r kappa theta sigma dt zs Sv ! Suc t =
     euler_step r kappa theta sigma dt (heston_loop r kappa theta sigma dt zs Sv ! t) (zs ! t)"
proof (induction zs arbitrary: t Sv)
  case Nil
  then show ?case by simp
next
  case (Cons z zs)
  show ?case
  proof (cases t)
    case 0
    then show ?thesis by (cases zs) simp_all
  next
    case (Suc k)
    then show ?thesis using Cons by simp
  qed
qed

lemma heston_loop_0: "heston_loop r kappa theta sigma dt zs Sv ! 0 = Sv"
  by (cases zs) simp_all

lemma cell_index_bound:
  assumes "i < n" "j < m"
  shows "i * m + j < n * (m::nat)"
proof -
  have "i * m + j < Suc i * m" using assms(2) by simp
  also have "\<dots> \<le> n * m" using assms(1) by (intro mult_le_mono1) simp
  finally show ?thesis .
qed

lemma path_draws_cong:
  assumes "\<forall>k < 2 * n * m. draws g (pos g + k) = draws h (pos h + k)" "i < n"
  shows "path_draws g rho n m i = path_draws h rho n m i"
proof -
  have a: "draws g (pos g + i * m + j) = draws h (pos h + i * m + j)" if "j < m" for j
    using assms(1) cell_index_bound [OF assms(2) that] by (simp add: add.assoc)
  have b: "draws g (pos g + n * m + i * m + j) = draws h (pos h + n * m + i * m + j)" if "j < m" for j
  proof -
    have "n * m + i * m + j < 2 * n * m"
      using cell_index_bound [OF assms(2) that] by (simp add: mult.commute)
    then show ?thesis using assms(1) by (simp add: add.assoc)
  qed
  show ?thesis
    unfolding path_draws_def by (rule map_cong) (simp_all add: a b)
qed

subsection \<open>What is rejected before simulating\<close>




subsection \<open>Seeding\<close>

text \<open>
  Claim C2, as amended. \<open>heston_model_sim\<close> takes no seed: it reads the process-wide
  generator. Its result depends on the generator only through the \<open>2 * num_paths * num_steps\<close>
  draws that follow the generator's position: two calls with identical parameters, started in
  generator states that agree on these draws (as two states seeded alike do), return the same
  price or the same error; and a call that returns leaves the generator advanced by that many
  draws.
\<close>

theorem price_determined_by_consumed_draws:
  assumes "\<forall>k < 2 * nat num_paths * nat num_steps. draws g (pos g + k) = draws h (pos h + k)"
  shows "map_sum id fst
           (heston_model_sim g S0 v0 rho kappa theta sigma T r strike option_type num_paths num_steps) =
         map_sum id fst
           (heston_model_sim h S0 v0 rho kappa theta sigma T r strike option_type num_paths num_steps) \<and>
         (\<forall>p g'. heston_model_sim g S0 v0 rho kappa theta sigma T r strike option_type num_paths num_steps
              = Inr (p, g') \<longrightarrow> g' = advance g (2 * nat num_paths * nat num_steps))"
proof -
  have "terminal_prices g S0 v0 rho kappa theta sigma dt r (nat num_paths) (nat num_steps) =
        terminal_prices h S0 v0 rho kappa theta sigma dt r (nat num_paths) (nat num_steps)" for dt
    unfolding terminal_prices_paths
    by (rule map_cong) (simp_all add: path_draws_cong [OF assms])
  then show ?thesis
    by (simp add: heston_model_sim_def Let_def)
qed

text \<open>
  The theorem at two generator states that agree on the two draws one path of one step
  consumes, and differ everywhere else.
\<close>

theorem price_determined_by_consumed_draws_witness:
  "map_sum id fst (heston_model_sim example_rng 1 1 0 2 1 1 1 (1/2) 1 ''call'' 1 1) =
   map_sum id fst (heston_model_sim \<lparr>draws = (\<lambda>k. if k < 9 then real (k - 7) else 0), pos = 7\<rparr>
      1 1 0 2 1 1 1 (1/2) 1 ''call'' 1 1)"
  using price_determined_by_consumed_draws [of 1 1 example_rng
      "\<lparr>draws = (\<lambda>k. if k < 9 then real (k - 7) else 0), pos = 7\<rparr>" 1 1 0 2 1 1 1 "1/2" 1 "''call''"]
  by (simp add: example_rng_def)

text \<open>
  Claim C2 as stated fails: the parameters of a call hold no seed, and two calls with
  identical parameters made one after the other on a seeded generator return different
  prices, \<open>0\<close> and \<open>exp (-1/2) * (exp 2 - 1)\<close>, the second call reading the draws after those
  of the first.
\<close>

theorem reseeding_counterexample:
  "heston_model_sim example_rng 1 1 0 2 1 1 1 (1/2) 1 ''call'' 1 1 =
     Inr (Some 0, advance example_rng 2) \<and>
   heston_model_sim (advance example_rng 2) 1 1 0 2 1 1 1 (1/2) 1 ''call'' 1 1 =
     Inr (Some (exp (- (1/2)) * (exp 2 - 1)), advance example_rng 4) \<and>
   (0::real) \<noteq> exp (- (1/2)) * (exp 2 - 1)"
  by (simp add: heston_model_sim_def terminal_prices_paths path_draws_def np_mean_def advance_def
      example_rng_def correlate_def np_sqrt_def euler_step_def np_maximum_def payoff_def)

subsection \<open>The variance floor\<close>

text \<open>
  Claim C4. At every step \<open>t\<close> of a path, with finite stored values \<open>s = S[i, t]\<close> and
  \<open>v = v[i, t]\<close>, a step size \<open>dt \<ge> 0\<close> and finite draws, the next stored values are
  \<open>S[i, t+1] = s * exp ((r - 0.5 * v\<^sup>+) * dt + sqrt v\<^sup>+ * sqrt dt * Z1)\<close> and
  \<open>v[i, t+1] = v + kappa * (theta - v\<^sup>+) * dt + sigma * sqrt v\<^sup>+ * sqrt dt * Z2\<close> with
  \<open>v\<^sup>+ = max v 0\<close>: the floor enters the coefficients only, and the stored variance is not
  floored. The arrays start at \<open>(S0, v0)\<close>. The stored variance can be negative: from
  \<open>v = 1\<close> with \<open>sigma = 1\<close>, \<open>dt = 1\<close> and \<open>Z2 = -2\<close> the next stored variance is \<open>-1\<close>.
\<close>

theorem variance_floored_only_when_read:
  "(0 \<le> dt \<and> t < length zs \<and>
      heston_loop r kappa theta sigma dt zs Sv0 ! t = (Some s, Some v) \<and> zs ! t = (z1, Some z2) \<longrightarrow>
      heston_loop r kappa theta sigma dt zs Sv0 ! Suc t =
        (Some (s * exp ((r - 0.5 * max v 0) * dt + sqrt (max v 0) * sqrt dt * z1)),
         Some (v + kappa * (theta - max v 0) * dt + sigma * sqrt (max v 0) * sqrt dt * z2))) \<and>
   heston_loop r kappa theta sigma dt zs Sv0 ! 0 = Sv0 \<and>
   heston_loop 0 0 0 1 1 [(0, Some (- 2)), (0, Some 0)] (Some 1, Some 1) ! 1 =
     (Some (exp (- (1/2))), Some (- 1))"
proof (intro conjI impI)
  assume a: "0 \<le> dt \<and> t < length zs \<and>
      heston_loop r kappa theta sigma dt zs Sv0 ! t = (Some s, Some v) \<and> zs ! t = (z1, Some z2)"
  then show "heston_loop r kappa theta sigma dt zs Sv0 ! Suc t =
        (Some (s * exp ((r - 0.5 * max v 0) * dt + sqrt (max v 0) * sqrt dt * z1)),
         Some (v + kappa * (theta - max v 0) * dt + sigma * sqrt (max v 0) * sqrt dt * z2))"
    by (simp add: heston_loop_Suc euler_step_Some)
next
  show "heston_loop r kappa theta sigma dt zs Sv0 ! 0 = Sv0"
    by (rule heston_loop_0)
next
  show "heston_loop 0 0 0 1 1 [(0, Some (- 2)), (0, Some 0)] (Some 1, Some 1) ! 1 =
     (Some (exp (- (1/2))), Some (- 1))"
    by (simp add: euler_step_Some)
qed

text \<open>
  The theorem at the step after that one: the stored variance \<open>-1\<close> is read as \<open>0\<close>, so the
  price does not move and the stored variance stays \<open>-1\<close>.
\<close>

theorem variance_floored_only_when_read_witness:
  "heston_loop 0 0 0 1 1 [(0, Some (- 2)), (0, Some 0)] (Some 1, Some 1) ! Suc 1 =
     (Some (exp (- (1/2))), Some (- 1))"
proof -
  have h: "(0::real) \<le> 1 \<and> 1 < length [(0::real, Some (- 2::real)), (0, Some 0)] \<and>
      heston_loop 0 0 0 1 1 [(0, Some (- 2)), (0, Some 0)] (Some 1, Some 1) ! 1 =
        (Some (exp (- (1/2))), Some (- 1)) \<and>
      [(0::real, Some (- 2::real)), (0, Some 0)] ! 1 = (0, Some 0)"
    by (simp add: euler_step_Some)
  show ?thesis
    using variance_floored_only_when_read [of 1 1 "[(0, Some (- 2)), (0, Some 0)]" 0 0 0 1
        "(Some 1, Some 1)" "exp (- (1/2))" "- 1" 0 0] h
    by simp
qed

subsection \<open>Theta\<close>




subsection \<open>Delta and Gamma\<close>



subsection \<open>The simulations behind the Greeks\<close>




subsection \<open>Option types other than call\<close>

text \<open>
  Claim C10. For every option type string other than \<open>call\<close>, whenever \<open>heston_model_sim\<close>
  simulates (\<open>num_steps > 0\<close> and \<open>num_paths \<ge> 0\<close>) the price it returns is \<open>exp (- r * T)\<close>
  times the mean over the paths of the put payoff \<open>max (strike - S_T) 0\<close> of the terminal
  price (\<open>nan\<close> when a terminal price is or there is no path), which is also what it returns
  for \<open>put\<close>. The option type is never a reason to reject: a call raises exactly when
  \<open>num_steps \<le> 0\<close> or \<open>num_paths < 0\<close>.
\<close>

theorem other_option_types_priced_as_put:
  assumes "option_type \<noteq> ''call''"
  shows "(0 < num_steps \<and> 0 \<le> num_paths \<longrightarrow>
            heston_model_sim g S0 v0 rho kappa theta sigma T r strike option_type num_paths num_steps =
              Inr (case those (terminal_prices g S0 v0 rho kappa theta sigma
                                 (T / real_of_int num_steps) r (nat num_paths) (nat num_steps)) of
                     None \<Rightarrow> None
                   | Some xs \<Rightarrow>
                       if xs = [] then None
                       else Some (exp (- r * T) *
                         ((\<Sum>s\<leftarrow>xs. max (strike - s) 0) / real (length xs))),
                   advance g (2 * nat num_paths * nat num_steps))) \<and>
         heston_model_sim g S0 v0 rho kappa theta sigma T r strike option_type num_paths num_steps =
           heston_model_sim g S0 v0 rho kappa theta sigma T r strike ''put'' num_paths num_steps \<and>
         ((\<exists>e. heston_model_sim g S0 v0 rho kappa theta sigma T r strike option_type num_paths num_steps
                 = Inl e) \<longleftrightarrow> (num_steps \<le> 0 \<or> num_paths < 0))"
proof (intro conjI impI)
  let ?ST = "terminal_prices g S0 v0 rho kappa theta sigma (T / real_of_int num_steps) r
               (nat num_paths) (nat num_steps)"
  assume dims: "0 < num_steps \<and> 0 \<le> num_paths"
  have "np_mean (map (payoff option_type strike) ?ST) =
          (case those ?ST of None \<Rightarrow> None
           | Some xs \<Rightarrow> if xs = [] then None
               else Some (sum_list (map (\<lambda>s. max (strike - s) 0) xs) / real (length xs)))"
    unfolding np_mean_map_payoff using assms by (simp split: option.splits)
  then show "heston_model_sim g S0 v0 rho kappa theta sigma T r strike option_type num_paths num_steps =
              Inr (case those ?ST of
                     None \<Rightarrow> None
                   | Some xs \<Rightarrow>
                       if xs = [] then None
                       else Some (exp (- r * T) *
                         ((\<Sum>s\<leftarrow>xs. max (strike - s) 0) / real (length xs))),
                   advance g (2 * nat num_paths * nat num_steps))"
    using dims by (simp add: heston_model_sim_Inr split: option.splits)
next
  have "payoff option_type strike = payoff ''put'' strike"
    using assms by (auto simp: payoff_def fun_eq_iff)
  then show "heston_model_sim g S0 v0 rho kappa theta sigma T r strike option_type num_paths num_steps =
      heston_model_sim g S0 v0 rho kappa theta sigma T r strike ''put'' num_paths num_steps"
    by (simp add: heston_model_sim_def Let_def)
next
  show "(\<exists>e. heston_model_sim g S0 v0 rho kappa theta sigma T r strike option_type num_paths num_steps
            = Inl e) \<longleftrightarrow> (num_steps \<le> 0 \<or> num_paths < 0)"
    by (auto simp: heston_model_sim_def Let_def)
qed

text \<open>
  The theorem at the option type \<open>straddle\<close> with strike 1000, on two paths of one step whose
  terminal prices are \<open>100\<close> and \<open>100 * exp 1\<close>: the put payoffs are \<open>900\<close> and
  \<open>1000 - 100 * exp 1\<close>.
\<close>

theorem other_option_types_priced_as_put_witness:
  "heston_model_sim example_rng 100 1 0 2 1 1 1 (1/2) 1000 ''straddle'' 2 1 =
     Inr (Some (exp (- (1/2)) * ((900 + (1000 - 100 * exp 1)) / 2)), advance example_rng 4) \<and>
   heston_model_sim example_rng 100 1 0 2 1 1 1 (1/2) 1000 ''straddle'' 2 1 =
     heston_model_sim example_rng 100 1 0 2 1 1 1 (1/2) 1000 ''put'' 2 1 \<and>
   \<not> (\<exists>e. heston_model_sim example_rng 100 1 0 2 1 1 1 (1/2) 1000 ''straddle'' 2 1 = Inl e)"
proof -
  have e: "100 * exp (1::real) \<le> 1000"
    using exp_le by simp
  have dims: "(0::int) < 1 \<and> (0::int) \<le> 2" "''straddle'' \<noteq> ''call''"
    by simp_all
  note inst = other_option_types_priced_as_put [OF dims(2), of 1 2 example_rng 100 1 0 2 1 1 1 "1/2" 1000]
  have "heston_model_sim example_rng 100 1 0 2 1 1 1 (1/2) 1000 ''straddle'' 2 1 =
     Inr (Some (exp (- (1/2)) * ((900 + (1000 - 100 * exp 1)) / 2)), advance example_rng 4)"
    using inst e by (simp add: example_terminal_prices max_def)
  moreover have "heston_model_sim example_rng 100 1 0 2 1 1 1 (1/2) 1000 ''straddle'' 2 1 =
     heston_model_sim example_rng 100 1 0 2 1 1 1 (1/2) 1000 ''put'' 2 1"
    using inst by blast
  moreover have "\<not> (\<exists>e. heston_model_sim example_rng 100 1 0 2 1 1 1 (1/2) 1000 ''straddle'' 2 1 = Inl e)"
    using inst by simp
  ultimately show ?thesis by blast
qed

end
